theory Spec2Isabelle
  imports Main "HOL-Library.Word"
begin

unbundle bit_operations_syntax

section \<open>The chain controller of eos/chain/chain_controller.hpp\<close>

text \<open>
  The header declares the class \<^verbatim>\<open>chain_controller\<close>. Its member functions with a body in
  the header are embedded here from that body: the enumeration \<^verbatim>\<open>validation_steps\<close>, the two
  flag tests \<^verbatim>\<open>should_check_tapos\<close> and \<^verbatim>\<open>should_check_for_duplicate_transactions\<close>,
  the scoped modifiers \<^verbatim>\<open>with_skip_flags\<close>, \<^verbatim>\<open>with_producing\<close> and
  \<^verbatim>\<open>without_pending_transactions\<close>, and \<^verbatim>\<open>register_type\<close>. The slot functions
  \<^verbatim>\<open>get_slot_time\<close> and \<^verbatim>\<open>get_slot_at_time\<close> are declared there without a body and are
  modelled from their documented contract.
  A C++ identifier that starts with an underscore cannot be an Isabelle name: the private
  member \<^verbatim>\<open>_skip_flags\<close> is written \<open>u_skip_flags\<close>, and so on for the other members.
\<close>

subsection \<open>The enumeration validation_steps\<close>

text \<open>
  Each enumerator is written \<^verbatim>\<open>1 << k\<close> in the header. The flags are tested against the
  member \<^verbatim>\<open>uint64_t _skip_flags\<close>, so the enumerators are embedded at that width;
  \<open>push_bit k 1\<close> is the shift \<^verbatim>\<open>1 << k\<close>.
\<close>

type_synonym uint64_t = "64 word"
type_synonym uint32_t = "32 word"

definition skip_nothing :: uint64_t where
  "skip_nothing = 0"

definition skip_producer_signature :: uint64_t where
  "skip_producer_signature = push_bit 0 1"

definition skip_transaction_signatures :: uint64_t where
  "skip_transaction_signatures = push_bit 1 1"

definition skip_transaction_dupe_check :: uint64_t where
  "skip_transaction_dupe_check = push_bit 2 1"

definition skip_fork_db :: uint64_t where
  "skip_fork_db = push_bit 3 1"

definition skip_block_size_check :: uint64_t where
  "skip_block_size_check = push_bit 4 1"

definition skip_tapos_check :: uint64_t where
  "skip_tapos_check = push_bit 5 1"

definition skip_authority_check :: uint64_t where
  "skip_authority_check = push_bit 6 1"

definition skip_merkle_check :: uint64_t where
  "skip_merkle_check = push_bit 7 1"

definition skip_assert_evaluation :: uint64_t where
  "skip_assert_evaluation = push_bit 8 1"

definition skip_undo_history_check :: uint64_t where
  "skip_undo_history_check = push_bit 9 1"

definition skip_producer_schedule_check :: uint64_t where
  "skip_producer_schedule_check = push_bit 10 1"

definition skip_validate :: uint64_t where
  "skip_validate = push_bit 11 1"

text \<open>
  The enumerators in the order of their declaration, each with the name the table of the
  specification gives to its bit.
\<close>

definition validation_steps :: "(string \<times> uint64_t) list" where
  "validation_steps =
    [(''producer_signature'', skip_producer_signature),
     (''transaction_signatures'', skip_transaction_signatures),
     (''transaction_dupe_check'', skip_transaction_dupe_check),
     (''fork_db'', skip_fork_db),
     (''block_size_check'', skip_block_size_check),
     (''tapos_check'', skip_tapos_check),
     (''authority_check'', skip_authority_check),
     (''merkle_check'', skip_merkle_check),
     (''assert_evaluation'', skip_assert_evaluation),
     (''undo_history_check'', skip_undo_history_check),
     (''producer_schedule_check'', skip_producer_schedule_check),
     (''validate'', skip_validate)]"

subsection \<open>The controller's state\<close>

text \<open>
  The data members of the class that the inline member functions read or write. The database
  behind the reference \<^verbatim>\<open>_db\<close> and the session type of the object store belong to an
  external library and stay type parameters, as does the transaction type.
\<close>

record ('db, 'session, 'trx) chain_controller =
  u_db :: 'db
  u_pending_tx_session :: "'session option"
  u_pending_transactions :: "'trx list"
  u_producing :: bool
  u_pushing :: bool
  u_skip_flags :: uint64_t

text \<open>The initial values of the members that the class gives an initialiser.\<close>

definition initial_controller :: "'db \<Rightarrow> ('db, 'session, 'trx) chain_controller" where
  "initial_controller d =
     \<lparr>u_db = d, u_pending_tx_session = None, u_pending_transactions = [],
      u_producing = False, u_pushing = False, u_skip_flags = 0\<rparr>"

definition should_check_for_duplicate_transactions ::
  "('db, 'session, 'trx) chain_controller \<Rightarrow> bool" where
  "should_check_for_duplicate_transactions c =
     (\<not> ((u_skip_flags c AND skip_transaction_dupe_check) \<noteq> 0))"

definition should_check_tapos :: "('db, 'session, 'trx) chain_controller \<Rightarrow> bool" where
  "should_check_tapos c = (\<not> ((u_skip_flags c AND skip_tapos_check) \<noteq> 0))"

subsection \<open>Scoped modifiers\<close>

text \<open>
  A callable passed to a scoped modifier runs against the controller, may change any of its
  members, and ends by returning a value (\<open>Inr\<close>) or by throwing (\<open>Inl\<close>). The guard
  made by \<^verbatim>\<open>fc::make_scoped_exit\<close> is destroyed when the enclosing function is left, on
  both paths, after the result of \<^verbatim>\<open>f()\<close> has been computed; \<open>scoped_exit\<close> runs the
  guard's callback on the state the callable left behind and hands the result on.
\<close>

type_synonym ('s, 'e, 'a) callable = "'s \<Rightarrow> ('e + 'a) \<times> 's"

definition scoped_exit :: "('s \<Rightarrow> 's) \<Rightarrow> ('e + 'a) \<times> 's \<Rightarrow> ('e + 'a) \<times> 's" where
  "scoped_exit on_exit r =
     (case r of
        (Inl e, s) \<Rightarrow> (Inl e, on_exit s)
      | (Inr v, s) \<Rightarrow> (Inr v, on_exit s))"

definition with_skip_flags ::
  "uint64_t \<Rightarrow> (('db, 'session, 'trx) chain_controller, 'e, 'a) callable
     \<Rightarrow> (('db, 'session, 'trx) chain_controller, 'e, 'a) callable" where
  "with_skip_flags flags f c =
     (let old_flags = u_skip_flags c;
          on_exit = (\<lambda>c'. c'\<lparr>u_skip_flags := old_flags\<rparr>)
      in scoped_exit on_exit (f (c\<lparr>u_skip_flags := flags\<rparr>)))"

definition with_producing ::
  "(('db, 'session, 'trx) chain_controller, 'e, 'a) callable
     \<Rightarrow> (('db, 'session, 'trx) chain_controller, 'e, 'a) callable" where
  "with_producing f c =
     (let old_producing = u_producing c;
          on_exit = (\<lambda>c'. c'\<lparr>u_producing := old_producing\<rparr>)
      in scoped_exit on_exit (f (c\<lparr>u_producing := True\<rparr>)))"

text \<open>
  \<^verbatim>\<open>without_pending_transactions\<close> moves the queue out of the controller, which leaves the
  member empty, and resets the optional pending session. Resetting an engaged optional destroys
  the session it holds; what the destructor of a session does to the database is a matter of
  the object store, so it is the parameter \<open>session_dtor\<close>. The member function
  \<^verbatim>\<open>push_transaction\<close> has no body in the header and is the parameter
  \<open>push_transaction\<close>; the guard calls it with its default argument
  \<^verbatim>\<open>skip = skip_nothing\<close>.
\<close>

definition reset_pending_tx_session ::
  "('session \<Rightarrow> 'db \<Rightarrow> 'db) \<Rightarrow> ('db, 'session, 'trx) chain_controller
     \<Rightarrow> ('db, 'session, 'trx) chain_controller" where
  "reset_pending_tx_session session_dtor c =
     (case u_pending_tx_session c of
        None \<Rightarrow> c
      | Some s \<Rightarrow> c\<lparr>u_db := session_dtor s (u_db c), u_pending_tx_session := None\<rparr>)"

text \<open>
  The loop of the guard: every transaction of the saved queue is pushed inside its own
  \<^verbatim>\<open>try { ... } catch ( ... ) {}\<close>, so an exception ends that one call only and the loop
  goes on from the state the call left.
\<close>

fun resubmit_pending ::
  "('trx \<Rightarrow> uint32_t \<Rightarrow> (('db, 'session, 'trx) chain_controller, 'e, unit) callable)
     \<Rightarrow> 'trx list \<Rightarrow> ('db, 'session, 'trx) chain_controller
     \<Rightarrow> ('db, 'session, 'trx) chain_controller" where
  "resubmit_pending push_transaction [] c = c"
| "resubmit_pending push_transaction (t # old_pending) c =
     (case push_transaction t (ucast skip_nothing) c of
        (Inl e, c') \<Rightarrow> resubmit_pending push_transaction old_pending c'
      | (Inr u, c') \<Rightarrow> resubmit_pending push_transaction old_pending c')"

definition without_pending_transactions ::
  "('session \<Rightarrow> 'db \<Rightarrow> 'db)
     \<Rightarrow> ('trx \<Rightarrow> uint32_t \<Rightarrow> (('db, 'session, 'trx) chain_controller, 'e, unit) callable)
     \<Rightarrow> (('db, 'session, 'trx) chain_controller, 'e, 'a) callable
     \<Rightarrow> (('db, 'session, 'trx) chain_controller, 'e, 'a) callable" where
  "without_pending_transactions session_dtor push_transaction f c =
     (let old_pending = u_pending_transactions c;
          c1 = c\<lparr>u_pending_transactions := []\<rparr>;
          c2 = reset_pending_tx_session session_dtor c1;
          on_exit = resubmit_pending push_transaction old_pending
      in scoped_exit on_exit (f c2))"

subsection \<open>register_type\<close>

text \<open>
  \<^verbatim>\<open>eos::types::GetStruct<T>::type()\<close> yields the description of the struct \<open>T\<close>; the
  function reads its members \<^verbatim>\<open>name\<close>, \<^verbatim>\<open>base\<close> and \<^verbatim>\<open>fields\<close>. The description
  is an argument of the embedding. The types of account names, type names and fields are
  declared outside the header and stay type parameters.
\<close>

record ('t, 'f) Struct =
  stru_name :: 't
  stru_base :: 't
  stru_fields :: "'f list"

text \<open>
  The members of \<^verbatim>\<open>type_object\<close> that the header names: \<^verbatim>\<open>scope\<close>, \<^verbatim>\<open>name\<close>,
  \<^verbatim>\<open>base\<close>, \<^verbatim>\<open>base_scope\<close> and \<^verbatim>\<open>fields\<close>, and the identifier every object of the
  store carries.
\<close>

record ('a, 't, 'f) type_object =
  o_id :: nat
  o_scope :: 'a
  o_name :: 't
  o_base_scope :: 'a
  o_base :: 't
  o_fields :: "'f list"

text \<open>
  The object store is an external library; the header uses two of its operations on the index
  of type objects. \<open>create\<close> builds a default-constructed object that carries the next
  identifier, runs the caller's constructor callback on it and inserts the result; the
  insertion is refused, and \<open>create\<close> throws, when the index already holds an object with
  the same identifier or the same key (scope, name) of the index \<^verbatim>\<open>by_scope_name\<close>.
  \<open>get\<close> looks an object up by that key and throws when there is none. The default values
  of an account name and of a type name are the arguments \<open>default_account\<close> and
  \<open>default_type\<close>; a default-constructed field vector is empty.
\<close>

record ('a, 't, 'f) database =
  type_index :: "('a, 't, 'f) type_object list"
  next_id :: nat

datatype db_exception = logic_error | out_of_range

definition default_type_object :: "'a \<Rightarrow> 't \<Rightarrow> ('a, 't, 'f) type_object" where
  "default_type_object default_account default_type =
     \<lparr>o_id = 0, o_scope = default_account, o_name = default_type,
      o_base_scope = default_account, o_base = default_type, o_fields = []\<rparr>"

definition get_by_scope_name ::
  "('a, 't, 'f) database \<Rightarrow> 'a \<times> 't \<Rightarrow> ('a, 't, 'f) type_object option" where
  "get_by_scope_name d k =
     find (\<lambda>x. o_scope x = fst k \<and> o_name x = snd k) (type_index d)"

definition create ::
  "'a \<Rightarrow> 't \<Rightarrow> (('a, 't, 'f) type_object \<Rightarrow> ('a, 't, 'f) type_object)
     \<Rightarrow> ('a, 't, 'f) database \<Rightarrow> db_exception + ('a, 't, 'f) database" where
  "create default_account default_type constructor d =
     (let x = constructor ((default_type_object default_account default_type)\<lparr>o_id := next_id d\<rparr>)
      in if list_ex (\<lambda>y. o_id y = o_id x) (type_index d)
            \<or> get_by_scope_name d (o_scope x, o_name x) \<noteq> None
         then Inl logic_error
         else Inr (d\<lparr>type_index := type_index d @ [x], next_id := next_id d + 1\<rparr>))"

text \<open>
  The body of the function. The callback assigns \<^verbatim>\<open>scope\<close>, \<^verbatim>\<open>name\<close> and \<^verbatim>\<open>base\<close>
  and appends the fields of the description one by one (\<^verbatim>\<open>reserve\<close> changes no value);
  it has no assignment to \<^verbatim>\<open>base_scope\<close>. The closing \<^verbatim>\<open>_db.get\<close> discards its result.
\<close>

definition register_type_constructor ::
  "('t, 'f) Struct \<Rightarrow> 'a \<Rightarrow> ('a, 't, 'f) type_object \<Rightarrow> ('a, 't, 'f) type_object" where
  "register_type_constructor stru scope x =
     (let x1 = x\<lparr>o_scope := scope\<rparr>;
          x2 = x1\<lparr>o_name := stru_name stru\<rparr>;
          x3 = x2\<lparr>o_base := stru_base stru\<rparr>
      in foldl (\<lambda>y f. y\<lparr>o_fields := o_fields y @ [f]\<rparr>) x3 (stru_fields stru))"

definition register_type ::
  "'a \<Rightarrow> 't \<Rightarrow> ('t, 'f) Struct \<Rightarrow> 'a
     \<Rightarrow> ((('a, 't, 'f) database, 'session, 'trx) chain_controller, db_exception, unit) callable"
  where
  "register_type default_account default_type stru scope c =
     (case create default_account default_type (register_type_constructor stru scope) (u_db c) of
        Inl e \<Rightarrow> (Inl e, c)
      | Inr d \<Rightarrow>
          (case get_by_scope_name d (scope, stru_name stru) of
             None \<Rightarrow> (Inl out_of_range, c\<lparr>u_db := d\<rparr>)
           | Some x \<Rightarrow> (Inr (), c\<lparr>u_db := d\<rparr>)))"

subsection \<open>Slot calculus\<close>

text \<open>
  The header declares \<^verbatim>\<open>get_slot_time\<close> and \<^verbatim>\<open>get_slot_at_time\<close>, each under a comment
  that states its contract; their bodies are in a file that is not among the sources, and
  section 4.1 of the specification repeats the contract. A time is a number of seconds since
  the epoch and \<^verbatim>\<open>time_point_sec()\<close> is second 0. Times and slot numbers are natural
  numbers: the widths of the arithmetic in the missing bodies are not in the sources, and
  nothing here wraps around. The block interval is the constant
  \<^verbatim>\<open>config::BlockIntervalSeconds\<close> that \<^verbatim>\<open>block_interval()\<close> returns; it is declared
  outside the header and is the argument \<open>interval\<close>. The head block time is read from
  the database and is the argument \<open>head_block_time\<close>.
\<close>

type_synonym time_point_sec = nat

text \<open>
  Modelled from the spec: the body of \<^verbatim>\<open>get_slot_time\<close> is missing. This is one step of
  its contract, the next block-interval-aligned time greater than \<open>t\<close>.
\<close>

definition next_aligned :: "nat \<Rightarrow> time_point_sec \<Rightarrow> time_point_sec" where
  "next_aligned interval t = (t div interval + 1) * interval"

text \<open>
  Modelled from the spec: the body of \<^verbatim>\<open>get_slot_time\<close> is missing. This is the n-th
  next block-interval-aligned time greater than \<open>t\<close>, by taking the next one n times.
\<close>

fun nth_next_aligned :: "nat \<Rightarrow> time_point_sec \<Rightarrow> nat \<Rightarrow> time_point_sec" where
  "nth_next_aligned interval t 0 = t"
| "nth_next_aligned interval t (Suc n) = next_aligned interval (nth_next_aligned interval t n)"

text \<open>
  Modelled from the spec: the body of \<^verbatim>\<open>get_slot_time\<close> is missing. The header's
  comment: ``If slot_num == 0, return time_point_sec(). If slot_num == N for N > 0, return
  the Nth next block-interval-aligned time greater than head_block_time().''
\<close>

definition get_slot_time :: "nat \<Rightarrow> time_point_sec \<Rightarrow> nat \<Rightarrow> time_point_sec" where
  "get_slot_time interval head_block_time slot_num =
     (if slot_num = 0 then 0 else nth_next_aligned interval head_block_time slot_num)"

text \<open>
  Modelled from the spec: the body of \<^verbatim>\<open>get_slot_at_time\<close> is missing. This is the
  search its contract asks for, within a bound: the greatest slot number from 1 to
  \<open>bound\<close> whose slot time is at or before \<open>when\<close>, and 0 if there is none.
\<close>

fun last_slot_upto :: "nat \<Rightarrow> time_point_sec \<Rightarrow> time_point_sec \<Rightarrow> nat \<Rightarrow> nat" where
  "last_slot_upto interval head_block_time when 0 = 0"
| "last_slot_upto interval head_block_time when (Suc bound) =
     (if get_slot_time interval head_block_time (Suc bound) \<le> when then Suc bound
      else last_slot_upto interval head_block_time when bound)"

text \<open>
  Modelled from the spec: the body of \<^verbatim>\<open>get_slot_at_time\<close> is missing. The header's
  comment: ``The return value is the greatest value N such that get_slot_time( N ) <= when.
  If no such N exists, return 0.'' The search runs up to \<open>when\<close> itself; with a positive
  interval no later slot can qualify, since slot \<open>N\<close> lies at least \<open>N\<close> seconds after
  the epoch, so the result is the greatest of all slot numbers that qualify (lemma
  \<open>get_slot_at_time_greatest\<close> below).
\<close>

definition get_slot_at_time :: "nat \<Rightarrow> time_point_sec \<Rightarrow> time_point_sec \<Rightarrow> nat" where
  "get_slot_at_time interval head_block_time when =
     last_slot_upto interval head_block_time when when"

subsection \<open>The expiration check\<close>

text \<open>
  The header declares \<^verbatim>\<open>validate_expiration\<close> without a body, and the transaction type
  and the error kinds are declared outside it. The comment on the enumerator
  \<^verbatim>\<open>skip_tapos_check\<close> says of the flag: ``note this skips expiration check as well''.
\<close>

text \<open>
  Modelled from the spec: the error kinds of the controller are declared outside the header.
  These are the kinds that section 7 of the specification lists as exhaustive.
\<close>

datatype error_kind =
    InvalidBlockHeader | UnknownParent | BadSignature | WrongProducer | BadTimestamp
  | MerkleMismatch | CheckpointMismatch | DuplicateTransaction | ExpiredTransaction
  | TaposMismatch | UnknownAccount | UnknownMessageType | AuthorityInsufficient
  | HandlerMissing | HandlerAssert | ReorgFailure | IrreversibleViolation

text \<open>
  Modelled from the spec: the type \<^verbatim>\<open>SignedTransaction\<close> is declared outside the header.
  These are the members that section 3 of the specification gives a signed transaction; the
  types of messages and signatures stay type parameters.
\<close>

record ('m, 'sig) SignedTransaction =
  ref_block_num :: nat
  ref_block_prefix :: nat
  expiration :: time_point_sec
  messages :: "'m list"
  signatures :: "'sig list"

text \<open>
  Modelled from the spec: the body of \<^verbatim>\<open>validate_expiration\<close> is missing. Section 4.4 of
  the specification gives the check of stage 1, ``expiration lies in the future and within
  max_transaction_lifetime of head block time'', and says that the stages are skipped by the
  bitmask; the table of section 6 says of bit 5, tapos_check, that it ``also disables
  expiration check'', as the header's comment on the enumerator does. The flag is read
  through the header's own test \<^verbatim>\<open>should_check_tapos\<close>. The head block time and the
  maximal transaction lifetime are read from the database and are arguments.
\<close>

definition validate_expiration ::
  "time_point_sec \<Rightarrow> nat \<Rightarrow> ('db, 'session, 'trx) chain_controller
     \<Rightarrow> ('m, 'sig) SignedTransaction \<Rightarrow> error_kind + unit" where
  "validate_expiration head_block_time max_transaction_lifetime c trx =
     (if \<not> should_check_tapos c then Inr ()
      else if head_block_time < expiration trx
              \<and> expiration trx \<le> head_block_time + max_transaction_lifetime
           then Inr ()
           else Inl ExpiredTransaction)"

section \<open>Properties\<close>

lemma bit_push_bit_one_word:
  "bit (push_bit k (1 :: uint64_t)) n \<longleftrightarrow> n = k \<and> k < 64"
  by (auto simp add: bit_push_bit_iff bit_1_iff simp del: push_bit_of_1)

lemma flag_has_one_bit:
  "k < 64 \<Longrightarrow> \<forall>n. bit (push_bit k (1 :: uint64_t)) n = (n = k)"
  by (simp only: bit_push_bit_one_word) simp

lemma and_push_bit_one_eq_0:
  assumes k: "k < 64"
  shows "((w AND push_bit k (1 :: uint64_t)) \<noteq> 0) = bit w k"
proof
  assume nz: "(w AND push_bit k 1) \<noteq> 0"
  show "bit w k"
  proof (rule ccontr)
    assume nb: "\<not> bit w k"
    have "w AND push_bit k 1 = 0"
    proof (rule bit_eqI)
      fix n
      show "bit (w AND push_bit k 1) n = bit (0 :: uint64_t) n"
        using nb by (simp only: bit_and_iff bit_push_bit_one_word) auto
    qed
    then show False using nz by simp
  qed
next
  assume b: "bit w k"
  have "bit (w AND push_bit k 1) k"
    using b k by (simp only: bit_and_iff bit_push_bit_one_word)
  then show "(w AND push_bit k 1) \<noteq> 0"
    by auto
qed

lemma scoped_exit_fst: "fst (scoped_exit g r) = fst r"
  by (simp add: scoped_exit_def split: prod.splits sum.splits)

lemma scoped_exit_snd: "snd (scoped_exit g r) = g (snd r)"
  by (simp add: scoped_exit_def split: prod.splits sum.splits)

text \<open>
  Claim C7. The enumeration assigns the twelve flags the bit positions 0 to 11 in the order
  producer_signature, transaction_signatures, transaction_dupe_check, fork_db,
  block_size_check, tapos_check, authority_check, merkle_check, assert_evaluation,
  undo_history_check, producer_schedule_check, validate: the k-th enumerator has bit k set
  and no other bit, and skip_nothing has none. The tapos flag is bit 5: the test
  should_check_tapos is true exactly when bit 5 of the controller's flags is clear, and the
  duplicate test is true exactly when bit 2 is clear. Bit 5 also disables the expiration
  check, and no other bit does: with bit 5 set the check accepts every transaction, and
  with bit 5 clear it accepts exactly the transactions whose expiration lies after the head
  block time and within the maximal lifetime of it.
\<close>

theorem validation_steps_bit_positions:
  "skip_nothing = 0
   \<and> map fst validation_steps =
       [''producer_signature'', ''transaction_signatures'', ''transaction_dupe_check'',
        ''fork_db'', ''block_size_check'', ''tapos_check'', ''authority_check'',
        ''merkle_check'', ''assert_evaluation'', ''undo_history_check'',
        ''producer_schedule_check'', ''validate'']
   \<and> map snd validation_steps = map (\<lambda>k. push_bit k 1) [0 ..< 12]
   \<and> (\<forall>n. bit skip_producer_signature n = (n = 0))
   \<and> (\<forall>n. bit skip_transaction_signatures n = (n = 1))
   \<and> (\<forall>n. bit skip_transaction_dupe_check n = (n = 2))
   \<and> (\<forall>n. bit skip_fork_db n = (n = 3))
   \<and> (\<forall>n. bit skip_block_size_check n = (n = 4))
   \<and> (\<forall>n. bit skip_tapos_check n = (n = 5))
   \<and> (\<forall>n. bit skip_authority_check n = (n = 6))
   \<and> (\<forall>n. bit skip_merkle_check n = (n = 7))
   \<and> (\<forall>n. bit skip_assert_evaluation n = (n = 8))
   \<and> (\<forall>n. bit skip_undo_history_check n = (n = 9))
   \<and> (\<forall>n. bit skip_producer_schedule_check n = (n = 10))
   \<and> (\<forall>n. bit skip_validate n = (n = 11))
   \<and> should_check_tapos c = (\<not> bit (u_skip_flags c) 5)
   \<and> should_check_for_duplicate_transactions c = (\<not> bit (u_skip_flags c) 2)
   \<and> validate_expiration head_block_time max_transaction_lifetime c trx =
       (if bit (u_skip_flags c) 5 then Inr ()
        else if head_block_time < expiration trx
                \<and> expiration trx \<le> head_block_time + max_transaction_lifetime
             then Inr ()
             else Inl ExpiredTransaction)"
proof -
  have names: "map fst validation_steps =
       [''producer_signature'', ''transaction_signatures'', ''transaction_dupe_check'',
        ''fork_db'', ''block_size_check'', ''tapos_check'', ''authority_check'',
        ''merkle_check'', ''assert_evaluation'', ''undo_history_check'',
        ''producer_schedule_check'', ''validate'']"
    by (simp add: validation_steps_def)
  have upt12: "[0 ..< 12] = [0, 1, 2, 3, 4, 5, 6, 7, 8, 9, 10, 11 :: nat]"
    by (simp add: upt_rec)
  have vals: "map snd validation_steps = map (\<lambda>k. push_bit k 1) [0 ..< 12]"
    unfolding upt12
    by (simp add: validation_steps_def skip_producer_signature_def
        skip_transaction_signatures_def skip_transaction_dupe_check_def skip_fork_db_def
        skip_block_size_check_def skip_tapos_check_def skip_authority_check_def
        skip_merkle_check_def skip_assert_evaluation_def skip_undo_history_check_def
        skip_producer_schedule_check_def skip_validate_def)
  have b0: "\<forall>n. bit skip_producer_signature n = (n = 0)"
    unfolding skip_producer_signature_def by (rule flag_has_one_bit) simp
  have b1: "\<forall>n. bit skip_transaction_signatures n = (n = 1)"
    unfolding skip_transaction_signatures_def by (rule flag_has_one_bit) simp
  have b2: "\<forall>n. bit skip_transaction_dupe_check n = (n = 2)"
    unfolding skip_transaction_dupe_check_def by (rule flag_has_one_bit) simp
  have b3: "\<forall>n. bit skip_fork_db n = (n = 3)"
    unfolding skip_fork_db_def by (rule flag_has_one_bit) simp
  have b4: "\<forall>n. bit skip_block_size_check n = (n = 4)"
    unfolding skip_block_size_check_def by (rule flag_has_one_bit) simp
  have b5: "\<forall>n. bit skip_tapos_check n = (n = 5)"
    unfolding skip_tapos_check_def by (rule flag_has_one_bit) simp
  have b6: "\<forall>n. bit skip_authority_check n = (n = 6)"
    unfolding skip_authority_check_def by (rule flag_has_one_bit) simp
  have b7: "\<forall>n. bit skip_merkle_check n = (n = 7)"
    unfolding skip_merkle_check_def by (rule flag_has_one_bit) simp
  have b8: "\<forall>n. bit skip_assert_evaluation n = (n = 8)"
    unfolding skip_assert_evaluation_def by (rule flag_has_one_bit) simp
  have b9: "\<forall>n. bit skip_undo_history_check n = (n = 9)"
    unfolding skip_undo_history_check_def by (rule flag_has_one_bit) simp
  have b10: "\<forall>n. bit skip_producer_schedule_check n = (n = 10)"
    unfolding skip_producer_schedule_check_def by (rule flag_has_one_bit) simp
  have b11: "\<forall>n. bit skip_validate n = (n = 11)"
    unfolding skip_validate_def by (rule flag_has_one_bit) simp
  have tapos: "should_check_tapos c = (\<not> bit (u_skip_flags c) 5)"
    unfolding should_check_tapos_def skip_tapos_check_def
    by (subst and_push_bit_one_eq_0) simp_all
  have dupe: "should_check_for_duplicate_transactions c = (\<not> bit (u_skip_flags c) 2)"
    unfolding should_check_for_duplicate_transactions_def skip_transaction_dupe_check_def
    by (subst and_push_bit_one_eq_0) simp_all
  have none: "skip_nothing = 0"
    by (simp add: skip_nothing_def)
  have expi: "validate_expiration head_block_time max_transaction_lifetime c trx =
       (if bit (u_skip_flags c) 5 then Inr ()
        else if head_block_time < expiration trx
                \<and> expiration trx \<le> head_block_time + max_transaction_lifetime
             then Inr ()
             else Inl ExpiredTransaction)"
    unfolding validate_expiration_def tapos by simp
  show ?thesis
    by (intro conjI none names vals b0 b1 b2 b3 b4 b5 b6 b7 b8 b9 b10 b11 tapos dupe expi)
qed

text \<open>
  An instance: at head block time 100 with a lifetime of 60 seconds, a transaction that
  expired at second 50 passes the expiration check under the tapos flag, and is refused
  with no flag set and with two other flags set.
\<close>

lemma validate_expiration_example:
  "validate_expiration 100 60
     ((initial_controller (0 :: nat) :: (nat, unit, nat) chain_controller)
        \<lparr>u_skip_flags := skip_tapos_check\<rparr>)
     \<lparr>ref_block_num = 0, ref_block_prefix = 0, expiration = 50,
      messages = [] :: nat list, signatures = [] :: nat list\<rparr> = Inr ()
   \<and> validate_expiration 100 60
     ((initial_controller (0 :: nat) :: (nat, unit, nat) chain_controller)
        \<lparr>u_skip_flags := skip_nothing\<rparr>)
     \<lparr>ref_block_num = 0, ref_block_prefix = 0, expiration = 50,
      messages = [] :: nat list, signatures = [] :: nat list\<rparr> = Inl ExpiredTransaction
   \<and> validate_expiration 100 60
     ((initial_controller (0 :: nat) :: (nat, unit, nat) chain_controller)
        \<lparr>u_skip_flags := skip_validate OR skip_fork_db\<rparr>)
     \<lparr>ref_block_num = 0, ref_block_prefix = 0, expiration = 50,
      messages = [] :: nat list, signatures = [] :: nat list\<rparr> = Inl ExpiredTransaction"
  by (simp add: validate_expiration_def should_check_tapos_def skip_tapos_check_def
      skip_nothing_def skip_validate_def skip_fork_db_def initial_controller_def)

text \<open>
  Claim C8. For every callable f and both ways it can end, by returning a value or by
  throwing: with_skip_flags hands on exactly what f produced when run with the flags set to
  the argument, and afterwards the controller's skip flags are what they were before the
  call; with_producing hands on exactly what f produced when run with the producing bit
  set, and afterwards the producing bit is what it was before the call. Each modifier
  changes nothing else of the state f left, so the bit of the other modifier is also
  unchanged whenever f itself leaves that bit as it found it.
\<close>

theorem scoped_modifiers_restore:
  "u_skip_flags (snd (with_skip_flags flags f c)) = u_skip_flags c
   \<and> fst (with_skip_flags flags f c) = fst (f (c\<lparr>u_skip_flags := flags\<rparr>))
   \<and> snd (with_skip_flags flags f c)
       = (snd (f (c\<lparr>u_skip_flags := flags\<rparr>)))\<lparr>u_skip_flags := u_skip_flags c\<rparr>
   \<and> u_producing (snd (with_producing g c)) = u_producing c
   \<and> fst (with_producing g c) = fst (g (c\<lparr>u_producing := True\<rparr>))
   \<and> snd (with_producing g c)
       = (snd (g (c\<lparr>u_producing := True\<rparr>)))\<lparr>u_producing := u_producing c\<rparr>
   \<and> ((\<forall>c'. u_producing (snd (f c')) = u_producing c')
        \<longrightarrow> u_producing (snd (with_skip_flags flags f c)) = u_producing c)
   \<and> ((\<forall>c'. u_skip_flags (snd (g c')) = u_skip_flags c')
        \<longrightarrow> u_skip_flags (snd (with_producing g c)) = u_skip_flags c)"
  by (simp add: with_skip_flags_def with_producing_def Let_def scoped_exit_fst scoped_exit_snd)

text \<open>
  The theorem at a callable that overwrites the skip flags and then throws, and at one that
  clears the producing bit and returns 7: both leave the other bit alone, the exception and
  the value come back, and the controller has its old flags and its old producing bit.
\<close>

theorem scoped_modifiers_restore_witness:
  "(\<forall>c' :: (nat, unit, nat) chain_controller.
       u_producing (snd ((Inl ''boom'' :: string + nat, c'\<lparr>u_skip_flags := 7\<rparr>))) = u_producing c')
   \<and> (\<forall>c' :: (nat, unit, nat) chain_controller.
       u_skip_flags (snd ((Inr 7 :: string + nat, c'\<lparr>u_producing := False\<rparr>))) = u_skip_flags c')
   \<and> with_skip_flags 32 (\<lambda>c'. (Inl ''boom'' :: string + nat, c'\<lparr>u_skip_flags := 7\<rparr>))
         (initial_controller 0 :: (nat, unit, nat) chain_controller)
       = (Inl ''boom'', initial_controller 0)
   \<and> with_producing (\<lambda>c'. (Inr 7 :: string + nat, c'\<lparr>u_producing := False\<rparr>))
         (initial_controller 0 :: (nat, unit, nat) chain_controller)
       = (Inr 7, initial_controller 0)"
  using scoped_modifiers_restore
    [of 32 "\<lambda>c'. (Inl ''boom'' :: string + nat, c'\<lparr>u_skip_flags := 7\<rparr>)"
        "initial_controller 0 :: (nat, unit, nat) chain_controller"
        "\<lambda>c'. (Inr 7 :: string + nat, c'\<lparr>u_producing := False\<rparr>)"]
  by (simp add: prod_eq_iff initial_controller_def)


lemma resubmit_pending_foldl:
  "resubmit_pending pt ts c = foldl (\<lambda>s t. snd (pt t (ucast skip_nothing) s)) c ts"
  by (induction ts arbitrary: c) (auto split: prod.splits sum.splits)

lemma reset_pending_tx_session_None:
  "u_pending_tx_session (reset_pending_tx_session d c) = None"
  by (simp add: reset_pending_tx_session_def split: option.splits)

lemma reset_pending_tx_session_queue:
  "u_pending_transactions (reset_pending_tx_session d c) = u_pending_transactions c"
  by (simp add: reset_pending_tx_session_def split: option.splits)

text \<open>
  Claim C9. For every callable f, without_pending_transactions runs f on a controller whose
  pending queue is empty and whose pending session is reset. Whether f returns or throws,
  the caller gets exactly what f produced, and the final state is the one reached from the
  state f left by calling push_transaction, with the default skip argument, on each
  transaction of the queue saved at entry, first to last, each call starting from the state
  the previous call left whether that call returned or threw: no exception of a
  re-submission reaches the caller and none stops the loop.
\<close>

theorem without_pending_transactions_resubmits:
  "u_pending_transactions (reset_pending_tx_session d (c\<lparr>u_pending_transactions := []\<rparr>)) = []
   \<and> u_pending_tx_session (reset_pending_tx_session d (c\<lparr>u_pending_transactions := []\<rparr>))
       = None
   \<and> fst (without_pending_transactions d pt f c)
       = fst (f (reset_pending_tx_session d (c\<lparr>u_pending_transactions := []\<rparr>)))
   \<and> snd (without_pending_transactions d pt f c)
       = foldl (\<lambda>s t. snd (pt t (ucast skip_nothing) s))
           (snd (f (reset_pending_tx_session d (c\<lparr>u_pending_transactions := []\<rparr>))))
           (u_pending_transactions c)"
  by (simp add: without_pending_transactions_def Let_def scoped_exit_fst scoped_exit_snd
      resubmit_pending_foldl reset_pending_tx_session_None reset_pending_tx_session_queue)

text \<open>
  An instance with the database as a log. Three transactions are pending and a session is
  open; destroying the session logs 0, push_transaction logs the transaction, throws on
  transaction 2 and queues the others; f throws. The caller sees the exception of f, the
  log shows the session reset first and then the three re-submissions in queue order, and
  the transactions 1 and 3 are pending again.
\<close>

lemma without_pending_transactions_example:
  "without_pending_transactions (\<lambda>s d. d @ [0])
     (\<lambda>t skip c. if t = 2 then (Inl ''rejected'', c\<lparr>u_db := u_db c @ [t]\<rparr>)
                  else (Inr (), c\<lparr>u_db := u_db c @ [t],
                                   u_pending_transactions := u_pending_transactions c @ [t]\<rparr>))
     (\<lambda>c. (Inl ''f failed'' :: string + nat, c))
     \<lparr>u_db = [], u_pending_tx_session = Some (), u_pending_transactions = [1, 2, 3 :: nat],
      u_producing = False, u_pushing = False, u_skip_flags = 0\<rparr>
   = (Inl ''f failed'',
      \<lparr>u_db = [0, 1, 2, 3], u_pending_tx_session = None, u_pending_transactions = [1, 3],
       u_producing = False, u_pushing = False, u_skip_flags = 0\<rparr>)"
  by (simp add: without_pending_transactions_def Let_def scoped_exit_def
      reset_pending_tx_session_def)

lemma find_snoc:
  "find P (xs @ [x])
     = (case find P xs of None \<Rightarrow> (if P x then Some x else None) | Some y \<Rightarrow> Some y)"
  by (induction xs) auto

lemma push_back_loop:
  "o_fields (foldl (\<lambda>y f. y\<lparr>o_fields := o_fields y @ [f]\<rparr>) x fs) = o_fields x @ fs
   \<and> o_id (foldl (\<lambda>y f. y\<lparr>o_fields := o_fields y @ [f]\<rparr>) x fs) = o_id x
   \<and> o_scope (foldl (\<lambda>y f. y\<lparr>o_fields := o_fields y @ [f]\<rparr>) x fs) = o_scope x
   \<and> o_name (foldl (\<lambda>y f. y\<lparr>o_fields := o_fields y @ [f]\<rparr>) x fs) = o_name x
   \<and> o_base_scope (foldl (\<lambda>y f. y\<lparr>o_fields := o_fields y @ [f]\<rparr>) x fs) = o_base_scope x
   \<and> o_base (foldl (\<lambda>y f. y\<lparr>o_fields := o_fields y @ [f]\<rparr>) x fs) = o_base x"
  by (induction fs arbitrary: x) auto

lemma register_type_constructor_eq:
  "register_type_constructor stru scope x
     = x\<lparr>o_scope := scope, o_name := stru_name stru, o_base := stru_base stru,
         o_fields := o_fields x @ stru_fields stru\<rparr>"
  unfolding register_type_constructor_def Let_def
  by (rule type_object.equality) (simp_all add: push_back_loop)

text \<open>
  Claim C10. Whenever register_type returns normally for a struct description and a scope,
  looking up the key (scope, name of the description) in the database afterwards yields a
  type object of the index whose scope is the given scope and whose name, base and fields
  are those of the description, and whose base_scope is the default account name: the
  function never assigns it.
\<close>

theorem register_type_registers:
  assumes ok: "fst (register_type default_account default_type stru scope c) = Inr ()"
  shows "\<exists>x. get_by_scope_name
                (u_db (snd (register_type default_account default_type stru scope c)))
                (scope, stru_name stru) = Some x
           \<and> x \<in> set (type_index
                        (u_db (snd (register_type default_account default_type stru scope c))))
           \<and> o_scope x = scope
           \<and> o_name x = stru_name stru
           \<and> o_base x = stru_base stru
           \<and> o_fields x = stru_fields stru
           \<and> o_base_scope x = default_account"
  using ok
  by (auto simp add: register_type_def create_def Let_def get_by_scope_name_def find_snoc
      register_type_constructor_eq default_type_object_def
      split: sum.splits option.splits if_splits)

text \<open>
  The theorem at a struct with two fields, registered under scope 5 in an empty database
  where the default account name is 0.
\<close>

theorem register_type_registers_witness:
  "fst (register_type (0 :: nat) ''''
          \<lparr>stru_name = ''transfer'', stru_base = '''',
           stru_fields = [(''from'', ''AccountName''), (''to'', ''AccountName'')]\<rparr>
          5 (initial_controller \<lparr>type_index = [], next_id = 0\<rparr>
               :: ((nat, string, string \<times> string) database, unit, nat) chain_controller))
     = Inr ()
   \<and> (\<exists>x. get_by_scope_name
              (u_db (snd (register_type (0 :: nat) ''''
                 \<lparr>stru_name = ''transfer'', stru_base = '''',
                  stru_fields = [(''from'', ''AccountName''), (''to'', ''AccountName'')]\<rparr>
                 5 (initial_controller \<lparr>type_index = [], next_id = 0\<rparr>
                      :: ((nat, string, string \<times> string) database, unit, nat)
                           chain_controller))))
              (5, ''transfer'') = Some x
          \<and> o_fields x = [(''from'', ''AccountName''), (''to'', ''AccountName'')]
          \<and> o_base_scope x = 0)"
proof -
  let ?c = "initial_controller \<lparr>type_index = [], next_id = 0\<rparr>
              :: ((nat, string, string \<times> string) database, unit, nat) chain_controller"
  let ?s = "\<lparr>stru_name = ''transfer'', stru_base = '''',
             stru_fields = [(''from'', ''AccountName''), (''to'', ''AccountName'')]\<rparr>"
  have h: "fst (register_type (0 :: nat) '''' ?s 5 ?c) = Inr ()"
    by (simp add: register_type_def create_def Let_def get_by_scope_name_def
        register_type_constructor_eq default_type_object_def initial_controller_def)
  from register_type_registers [OF h] h show ?thesis
    by auto
qed

text \<open>
  Registering a second struct of the same name under the same scope does not return
  normally: the index refuses the key and create throws.
\<close>

lemma register_type_twice_throws:
  "fst (register_type (0 :: nat) ''''
          \<lparr>stru_name = ''transfer'', stru_base = ''other'', stru_fields = []\<rparr> 5
          (snd (register_type (0 :: nat) ''''
             \<lparr>stru_name = ''transfer'', stru_base = '''',
              stru_fields = [(''from'', ''AccountName'')]\<rparr>
             5 (initial_controller \<lparr>type_index = [], next_id = 0\<rparr>
                  :: ((nat, string, string \<times> string) database, unit, nat) chain_controller))))
     = Inl logic_error"
  by (simp add: register_type_def create_def Let_def get_by_scope_name_def
      register_type_constructor_eq default_type_object_def initial_controller_def)

lemma next_aligned_least:
  assumes "0 < I"
  shows "I dvd next_aligned I t \<and> t < next_aligned I t
         \<and> (\<forall>s. I dvd s \<and> t < s \<longrightarrow> next_aligned I t \<le> s)"
proof (intro conjI allI impI)
  show "I dvd next_aligned I t" by (simp add: next_aligned_def)
  show "t < next_aligned I t"
    using assms unfolding next_aligned_def
    by (metis Suc_eq_plus1 dividend_less_div_times mult.commute mult_Suc_right add.commute)
next
  fix s assume s: "I dvd s \<and> t < s"
  then obtain k where k: "s = k * I" by (metis dvd_def mult.commute)
  with s assms have "t div I < k"
    by (simp add: div_less_iff_less_mult)
  then have "t div I + 1 \<le> k" by simp
  then have "(t div I + 1) * I \<le> k * I" by (rule mult_le_mono1)
  then show "next_aligned I t \<le> s" by (simp add: next_aligned_def k)
qed

lemma nth_next_aligned_closed:
  "0 < I \<Longrightarrow> nth_next_aligned I h (Suc n) = (h div I + Suc n) * I"
  by (induction n) (simp_all add: next_aligned_def)

lemma get_slot_time_closed:
  "0 < I \<Longrightarrow> 0 < N \<Longrightarrow> get_slot_time I h N = (h div I + N) * I"
  by (cases N) (simp_all add: get_slot_time_def nth_next_aligned_closed del: nth_next_aligned.simps)

lemma card_aligned:
  assumes I: "0 < I"
  shows "card {s. h < s \<and> s \<le> t \<and> I dvd s} = t div I - h div I"
proof -
  have "{s. h < s \<and> s \<le> t \<and> I dvd s} = (\<lambda>k. k * I) ` {h div I <.. t div I}"
  proof (rule set_eqI, rule iffI)
    fix s assume "s \<in> {s. h < s \<and> s \<le> t \<and> I dvd s}"
    then have s: "h < s" "s \<le> t" "I dvd s" by auto
    then obtain k where k: "s = k * I" by (metis dvd_def mult.commute)
    have "h div I < k" using s(1) I by (simp add: k div_less_iff_less_mult)
    moreover have "k \<le> t div I" using s(2) I by (simp add: k less_eq_div_iff_mult_less_eq)
    ultimately show "s \<in> (\<lambda>k. k * I) ` {h div I <.. t div I}" using k by auto
  next
    fix s assume "s \<in> (\<lambda>k. k * I) ` {h div I <.. t div I}"
    then obtain k where ks: "s = k * I" and kin: "k \<in> {h div I <.. t div I}"
      by (rule imageE)
    from kin have "h div I < k" and "k \<le> t div I" by simp_all
    with ks have k: "s = k * I" "h div I < k" "k \<le> t div I" by simp_all
    have "h < s" using k(2) I by (simp add: k(1) div_less_iff_less_mult)
    moreover have "s \<le> t" using k(3) I by (simp add: k(1) less_eq_div_iff_mult_less_eq)
    ultimately show "s \<in> {s. h < s \<and> s \<le> t \<and> I dvd s}" by (simp add: k(1))
  qed
  moreover have "inj_on (\<lambda>k. k * I) {h div I <.. t div I}"
    using I by (simp add: inj_on_def)
  ultimately show ?thesis by (simp add: card_image)
qed

lemma get_slot_time_ge:
  assumes "0 < I" "0 < N" shows "N \<le> get_slot_time I h N"
proof -
  have "N * 1 \<le> N * I" using assms(1) by (intro mult_le_mono2) simp
  also have "\<dots> \<le> (h div I + N) * I" by (simp add: add_mult_distrib)
  finally show ?thesis using assms by (simp add: get_slot_time_closed)
qed

lemma get_slot_time_mono:
  assumes "0 < I" "0 < M" "0 < N"
  shows "get_slot_time I h M \<le> get_slot_time I h N \<longleftrightarrow> M \<le> N"
  using assms by (simp add: get_slot_time_closed)

lemma last_slot_upto_sound:
  "last_slot_upto I h w b = 0 \<or>
     (0 < last_slot_upto I h w b \<and> last_slot_upto I h w b \<le> b
        \<and> get_slot_time I h (last_slot_upto I h w b) \<le> w)"
  by (induction b) auto

lemma last_slot_upto_greatest:
  "0 < n \<Longrightarrow> n \<le> b \<Longrightarrow> get_slot_time I h n \<le> w \<Longrightarrow> n \<le> last_slot_upto I h w b"
proof (induction b)
  case 0
  then show ?case by simp
next
  case (Suc b)
  show ?case
  proof (cases "get_slot_time I h (Suc b) \<le> w")
    case True
    then show ?thesis using Suc.prems by simp
  next
    case False
    then have "n \<noteq> Suc b" using Suc.prems by auto
    then have "n \<le> b" using Suc.prems by simp
    then show ?thesis using Suc False by simp
  qed
qed

lemma get_slot_at_time_greatest:
  assumes I: "0 < I"
  shows "(get_slot_at_time I h w = 0 \<or> get_slot_time I h (get_slot_at_time I h w) \<le> w)
         \<and> (\<forall>n. 0 < n \<and> get_slot_time I h n \<le> w \<longrightarrow> n \<le> get_slot_at_time I h w)"
proof (intro conjI allI impI)
  show "get_slot_at_time I h w = 0 \<or> get_slot_time I h (get_slot_at_time I h w) \<le> w"
    using last_slot_upto_sound [of I h w w] by (auto simp add: get_slot_at_time_def)
next
  fix n assume n: "0 < n \<and> get_slot_time I h n \<le> w"
  then have "n \<le> w" using get_slot_time_ge [OF I, of n h] by simp
  then show "n \<le> get_slot_at_time I h w"
    using n by (simp add: get_slot_at_time_def last_slot_upto_greatest)
qed

text \<open>
  Claim C5. For every positive block interval, every head block time and every slot number
  N > 0, the slot at the time of slot N is N again:
  get_slot_at_time (get_slot_time N) = N.
\<close>

theorem slot_round_trip:
  assumes I: "0 < I" and N: "0 < N"
  shows "get_slot_at_time I h (get_slot_time I h N) = N"
proof -
  let ?r = "get_slot_at_time I h (get_slot_time I h N)"
  from get_slot_at_time_greatest [OF I, of h "get_slot_time I h N"]
  have a: "?r = 0 \<or> get_slot_time I h ?r \<le> get_slot_time I h N"
    and b: "N \<le> ?r" using N by auto
  from b N have r: "0 < ?r" by simp
  with a have "get_slot_time I h ?r \<le> get_slot_time I h N" by simp
  then have "?r \<le> N" using get_slot_time_mono [OF I r N] by simp
  with b show ?thesis by simp
qed

text \<open>
  The round trip at interval 3, head block time 100 and slot 2, whose time is second 105.
\<close>

theorem slot_round_trip_witness:
  "(0 :: nat) < 3 \<and> (0 :: nat) < 2 \<and> get_slot_time 3 100 2 = 105
   \<and> get_slot_at_time 3 100 105 = 2"
proof -
  have t: "get_slot_time 3 100 2 = 105"
    by (simp add: get_slot_time_closed)
  from slot_round_trip [of 3 2 100] t show ?thesis
    by simp
qed

text \<open>
  Claim C6. get_slot_time 0 is the epoch-zero sentinel. For a positive block interval and
  N > 0, get_slot_time N is a multiple of the block interval, it is not before the head
  block time, exactly N slots have elapsed since the head at that time, that is, exactly N
  block-interval-aligned instants lie after the head block time and not after it, and it
  is the first such time: no time from the head block time on with N elapsed slots is
  earlier.
\<close>

theorem get_slot_time_spec:
  "get_slot_time I h 0 = 0
   \<and> (0 < I \<and> 0 < N \<longrightarrow>
        I dvd get_slot_time I h N
        \<and> h \<le> get_slot_time I h N
        \<and> card {s. h < s \<and> s \<le> get_slot_time I h N \<and> I dvd s} = N
        \<and> (\<forall>t. h \<le> t \<and> card {s. h < s \<and> s \<le> t \<and> I dvd s} = N
               \<longrightarrow> get_slot_time I h N \<le> t))"
proof (intro conjI impI)
  show "get_slot_time I h 0 = 0" by (simp add: get_slot_time_def)
next
  assume a: "0 < I \<and> 0 < N"
  then have I: "0 < I" and N: "0 < N" by simp_all
  have cf: "get_slot_time I h N = (h div I + N) * I" by (rule get_slot_time_closed [OF I N])
  show "I dvd get_slot_time I h N" by (simp add: cf)
  have "h < (h div I + 1) * I"
    using next_aligned_least [OF I, of h] by (simp add: next_aligned_def)
  also have "\<dots> \<le> (h div I + N) * I" using N by (intro mult_le_mono1) simp
  finally show "h \<le> get_slot_time I h N" by (simp add: cf)
  show "card {s. h < s \<and> s \<le> get_slot_time I h N \<and> I dvd s} = N"
    using I by (simp add: card_aligned cf)
  show "\<forall>t. h \<le> t \<and> card {s. h < s \<and> s \<le> t \<and> I dvd s} = N \<longrightarrow> get_slot_time I h N \<le> t"
  proof (intro allI impI)
    fix t assume t: "h \<le> t \<and> card {s. h < s \<and> s \<le> t \<and> I dvd s} = N"
    then have "t div I - h div I = N" by (simp add: card_aligned [OF I])
    then have "h div I + N = t div I" using N by simp
    then have "(h div I + N) * I = t div I * I" by simp
    also have "\<dots> \<le> t" by simp
    finally show "get_slot_time I h N \<le> t" by (simp add: cf)
  qed
qed

text \<open>
  The characterisation at interval 3, head block time 100 and slot 2: the slot time is
  second 105, a multiple of 3, and the two aligned instants 102 and 105 lie after second
  100 and not after it.
\<close>

theorem get_slot_time_spec_witness:
  "(0 :: nat) < 3 \<and> (0 :: nat) < 2
   \<and> get_slot_time 3 100 0 = 0
   \<and> get_slot_time 3 100 2 = 105
   \<and> (3 :: nat) dvd 105
   \<and> (100 :: nat) \<le> 105
   \<and> card {s :: nat. 100 < s \<and> s \<le> 105 \<and> 3 dvd s} = 2"
proof -
  have t: "get_slot_time 3 100 2 = 105"
    by (simp add: get_slot_time_closed)
  from get_slot_time_spec [of 3 100 2] t show ?thesis
    by simp
qed

end
